theory Spec2Isabelle
  imports Complex_Main "HOL-Library.Char_ord" "HOL-Library.List_Lexorder"
begin

section \<open>Values, exceptions and records shared by the modules\<close>

text \<open>
  Python values that occur in JSON bodies and in the \<open>extra\<close> fields of log calls.
  \<open>time.time()\<close> returns a float; timestamps and durations are modelled as exact
  rationals (every float is one), so binary rounding error is not part of the model.
\<close>

datatype pyval = PStr string | PInt int | PFloat rat

text \<open>An exception object, an instance of \<open>Exception\<close>: its class name and its
  message (\<open>str(e)\<close>).\<close>

datatype exn = Exn string string

fun exn_str :: "exn \<Rightarrow> string" where
  "exn_str (Exn cls msg) = msg"

text \<open>
  The builtin \<open>round(x, ndigits)\<close>: the nearest multiple of \<open>10 ^ -ndigits\<close>, a tie
  going to the even neighbour.
\<close>

definition round_half_even :: "rat \<Rightarrow> int" where
  "round_half_even x =
     (let f = \<lfloor>x\<rfloor>; d = x - of_int f
      in if d < 1 / 2 then f else if 1 / 2 < d then f + 1 else if even f then f else f + 1)"

definition py_round :: "rat \<Rightarrow> nat \<Rightarrow> rat" where
  "py_round x ndigits = of_int (round_half_even (x * 10 ^ ndigits)) / 10 ^ ndigits"

text \<open>\<open>str(n)\<close> of an integer: its decimal digits, with a sign.\<close>

fun str_nat :: "nat \<Rightarrow> string" where
  "str_nat n =
     (if n < 10 then [''0123456789'' ! n]
      else str_nat (n div 10) @ [''0123456789'' ! (n mod 10)])"

declare str_nat.simps [simp del]

definition str_int :: "int \<Rightarrow> string" where
  "str_int i = (if i < 0 then CHR ''-'' # str_nat (nat (- i)) else str_nat (nat i))"

section \<open>app/core/config.py\<close>

text \<open>
  The fields of \<open>Settings\<close> that the modelled code reads, and the shutdown grace
  period it declares. Every field comes from the environment, with the default of
  \<open>Settings_default\<close> when the variable is not set.
\<close>

record settings =
  APP_NAME :: string
  VERSION :: string
  ENVIRONMENT :: string
  SHUTDOWN_TIMEOUT :: int

definition Settings_default :: settings where
  "Settings_default =
     \<lparr>APP_NAME = ''sre-demo-api'', VERSION = ''1.0.0'', ENVIRONMENT = ''development'',
      SHUTDOWN_TIMEOUT = 30\<rparr>"

section \<open>Requests, responses, log records\<close>

text \<open>
  Header collections are maps from the header's name to its value; the framework compares
  names without regard to case, so a key stands for every spelling of the name.
\<close>

record request =
  req_method :: string
  url_path :: string
  req_headers :: "string \<rightharpoonup> string"
  state_correlation_id :: "string option"

record response =
  status_code :: int
  content :: "(string \<times> pyval) list"
  resp_headers :: "string \<rightharpoonup> string"

definition JSONResponse :: "int \<Rightarrow> (string \<times> pyval) list \<Rightarrow> response" where
  "JSONResponse status body =
     \<lparr>status_code = status, content = body,
      resp_headers = [''content-type'' \<mapsto> ''application/json'']\<rparr>"

datatype level = INFO | ERROR

record log_record =
  levelname :: level
  message :: string
  extra :: "(string \<times> pyval) list"
  exc_info :: bool

text \<open>What a run leaves behind, in order: log records, sleeps, writes of the ready flag,
  and calls of the downstream handler.\<close>

datatype event =
    Emit log_record
  | Sleep rat
  | SetReady bool
  | Invoke request

section \<open>app/main.py: application state and lifespan\<close>

record app_state =
  ready :: bool
  start_time :: rat
  request_count :: nat

text \<open>The module-level \<open>app_state\<close> dictionary, built when the module is loaded at
  clock reading \<open>now\<close>.\<close>

definition app_state_init :: "rat \<Rightarrow> app_state" where
  "app_state_init now = \<lparr>ready = False, start_time = now, request_count = 0\<rparr>"

definition info :: "string \<Rightarrow> (string \<times> pyval) list \<Rightarrow> log_record" where
  "info msg ex = \<lparr>levelname = INFO, message = msg, extra = ex, exc_info = False\<rparr>"

text \<open>\<open>lifespan\<close> up to its \<open>yield\<close>.\<close>

definition lifespan_startup :: "settings \<Rightarrow> app_state \<Rightarrow> app_state \<times> event list" where
  "lifespan_startup s st =
     (st\<lparr>ready := True\<rparr>,
      [Emit (info ''Starting application''
               [(''app_name'', PStr (APP_NAME s)), (''version'', PStr (VERSION s)),
                (''environment'', PStr (ENVIRONMENT s))]),
       Sleep (1 / 2),
       SetReady True,
       Emit (info ''Application ready to serve traffic'' [])])"

text \<open>\<open>lifespan\<close> after its \<open>yield\<close>. The settings are in scope there as they are
  before the \<open>yield\<close>.\<close>

definition lifespan_shutdown :: "settings \<Rightarrow> app_state \<Rightarrow> app_state \<times> event list" where
  "lifespan_shutdown s st =
     (st\<lparr>ready := False\<rparr>,
      [Emit (info ''Initiating graceful shutdown'' []),
       SetReady False,
       Sleep 2,
       Emit (info ''Shutdown complete'' [])])"

text \<open>The durations slept after the ready flag was last written \<open>False\<close>.\<close>

fun sleeps_after_unready :: "event list \<Rightarrow> rat list" where
  "sleeps_after_unready [] = []"
| "sleeps_after_unready (SetReady b # es) =
     (if b then sleeps_after_unready es else [d. Sleep d \<leftarrow> es])"
| "sleeps_after_unready (e # es) = sleeps_after_unready es"

section \<open>app/main.py: health probes and the root endpoint\<close>

text \<open>
  Each handler takes the module's global state it is in scope of, and the clock reading
  of its \<open>time.time()\<close> call where it makes one. A handler that returns a dictionary
  is answered by the framework with status 200 (for the liveness probe, the decorator's
  \<open>status_code\<close>) and that dictionary as the JSON body.
\<close>

definition liveness_probe :: "app_state \<Rightarrow> response" where
  "liveness_probe st = JSONResponse 200 [(''status'', PStr ''alive'')]"

definition readiness_probe :: "app_state \<Rightarrow> rat \<Rightarrow> response" where
  "readiness_probe st now =
     (if ready st
      then JSONResponse 200
             [(''status'', PStr ''ready''),
              (''uptime_seconds'', PFloat (py_round (now - start_time st) 2))]
      else JSONResponse 503 [(''status'', PStr ''not_ready'')])"

definition startup_probe :: "app_state \<Rightarrow> response" where
  "startup_probe st =
     (if ready st
      then JSONResponse 200 [(''status'', PStr ''started'')]
      else JSONResponse 503 [(''status'', PStr ''starting'')])"

definition root_endpoint :: "settings \<Rightarrow> app_state \<Rightarrow> rat \<Rightarrow> response" where
  "root_endpoint s st now =
     JSONResponse 200
       [(''service'', PStr (APP_NAME s)),
        (''version'', PStr (VERSION s)),
        (''environment'', PStr (ENVIRONMENT s)),
        (''status'', PStr ''operational''),
        (''uptime_seconds'', PFloat (py_round (now - start_time st) 2))]"

section \<open>The metrics library as app/core/metrics.py uses it\<close>

text \<open>
  \<open>prometheus_client\<close> is a dependency, not code of this repository. What follows is the
  part of its behaviour the middleware relies on. \<open>family.labels(**labelkwargs)\<close>
  raises \<open>ValueError\<close> unless the sorted keyword names are the family's sorted label
  names, and otherwise selects the child whose label values are \<open>str\<close> of the
  arguments, in the order of the declared names. A child is created on first use; \<open>inc()\<close>
  adds one to a counter child, \<open>observe(v)\<close> adds one observation to a histogram child.
\<close>

datatype labelarg = LStr string | LInt int

fun str :: "labelarg \<Rightarrow> string" where
  "str (LStr s) = s"
| "str (LInt i) = str_int i"

definition labels :: "string list \<Rightarrow> (string \<times> labelarg) list \<Rightarrow> exn + string list" where
  "labels labelnames labelkwargs =
     (if labelnames = []
      then Inl (Exn ''ValueError'' ''No label names were set when constructing the metric'')
      else if sort (map fst labelkwargs) \<noteq> sort labelnames
      then Inl (Exn ''ValueError'' ''Incorrect label names'')
      else Inr (map (\<lambda>l. case map_of labelkwargs l of Some v \<Rightarrow> str v | None \<Rightarrow> []) labelnames))"

definition inc :: "(string list \<rightharpoonup> nat) \<Rightarrow> string list \<Rightarrow> (string list \<rightharpoonup> nat)" where
  "inc c lv = c(lv \<mapsto> (case c lv of None \<Rightarrow> 1 | Some v \<Rightarrow> v + 1))"

definition observe :: "(string list \<rightharpoonup> rat list) \<Rightarrow> string list \<Rightarrow> rat \<Rightarrow> (string list \<rightharpoonup> rat list)" where
  "observe h lv v = h(lv \<mapsto> (case h lv of None \<Rightarrow> [v] | Some vs \<Rightarrow> vs @ [v]))"

text \<open>
  The two request metrics of the \<open>Metrics\<close> class, each with the label names its
  constructor call declares. The state of a family is its children: a counter child is its
  count, a histogram child the values observed so far.
\<close>

definition http_requests_total_labelnames :: "string list" where
  "http_requests_total_labelnames = [''method'', ''endpoint'', ''status'']"

definition http_request_duration_seconds_labelnames :: "string list" where
  "http_request_duration_seconds_labelnames = [''method'', ''endpoint'', ''status'']"

record Metrics =
  http_requests_total :: "string list \<rightharpoonup> nat"
  http_request_duration_seconds :: "string list \<rightharpoonup> rat list"

definition Metrics_init :: Metrics where
  "Metrics_init = \<lparr>http_requests_total = Map.empty, http_request_duration_seconds = Map.empty\<rparr>"

text \<open>The total of a counter over the children in \<open>keys\<close>, and the number of
  observations of a histogram over them.\<close>

definition counter_total :: "(string list \<rightharpoonup> nat) \<Rightarrow> string list list \<Rightarrow> nat" where
  "counter_total c keys = (\<Sum>k\<leftarrow>keys. case c k of None \<Rightarrow> 0 | Some v \<Rightarrow> v)"

definition observation_count :: "(string list \<rightharpoonup> rat list) \<Rightarrow> string list list \<Rightarrow> nat" where
  "observation_count h keys = (\<Sum>k\<leftarrow>keys. case h k of None \<Rightarrow> 0 | Some vs \<Rightarrow> length vs)"

section \<open>app/main.py: the middleware add_correlation_id\<close>

text \<open>\<open>headers.get(key, default)\<close>: the default only when the header is absent.\<close>

definition headers_get :: "(string \<rightharpoonup> string) \<Rightarrow> string \<Rightarrow> string \<Rightarrow> string" where
  "headers_get hs key dflt = (case hs key of Some v \<Rightarrow> v | None \<Rightarrow> dflt)"

text \<open>Line 94. \<open>uuid4\<close> is the string \<open>str(uuid.uuid4())\<close> evaluates to.\<close>

definition get_correlation_id :: "request \<Rightarrow> string \<Rightarrow> string" where
  "get_correlation_id request uuid4 = headers_get (req_headers request) ''X-Correlation-ID'' uuid4"

text \<open>The keyword arguments of the two \<open>labels\<close> calls on the counter (lines 98 to 100
  and 142 to 144) and of the one on the histogram (lines 110 to 114).\<close>

definition counter_labelkwargs :: "request \<Rightarrow> (string \<times> labelarg) list" where
  "counter_labelkwargs request =
     [(''method'', LStr (req_method request)), (''endpoint'', LStr (url_path request))]"

definition histogram_labelkwargs :: "request \<Rightarrow> response \<Rightarrow> (string \<times> labelarg) list" where
  "histogram_labelkwargs request response =
     [(''method'', LStr (req_method request)), (''endpoint'', LStr (url_path request)),
      (''status'', LInt (status_code response))]"

text \<open>\<open>metrics.http_requests_total.labels(...).inc()\<close>, as written at both places.\<close>

definition track_request :: "Metrics \<Rightarrow> request \<Rightarrow> exn + Metrics" where
  "track_request m request =
     (case labels http_requests_total_labelnames (counter_labelkwargs request) of
        Inl e \<Rightarrow> Inl e
      | Inr lv \<Rightarrow> Inr (m\<lparr>http_requests_total := inc (http_requests_total m) lv\<rparr>))"

text \<open>The \<open>try\<close> body after \<open>call_next\<close> has returned \<open>response\<close> (lines 108 to 129);
  \<open>now\<close> is the clock reading of line 109.\<close>

definition on_success ::
  "Metrics \<Rightarrow> string \<Rightarrow> request \<Rightarrow> response \<Rightarrow> rat \<Rightarrow> rat
     \<Rightarrow> exn + (response \<times> Metrics \<times> log_record list)" where
  "on_success m correlation_id request response start now =
     (let duration = now - start in
      case labels http_request_duration_seconds_labelnames
             (histogram_labelkwargs request response) of
        Inl e \<Rightarrow> Inl e
      | Inr lv \<Rightarrow>
          Inr (response\<lparr>resp_headers := (resp_headers response)(''X-Correlation-ID'' \<mapsto> correlation_id)\<rparr>,
               m\<lparr>http_request_duration_seconds :=
                    observe (http_request_duration_seconds m) lv duration\<rparr>,
               [info ''Request completed''
                  [(''correlation_id'', PStr correlation_id),
                   (''method'', PStr (req_method request)),
                   (''path'', PStr (url_path request)),
                   (''status_code'', PInt (status_code response)),
                   (''duration_ms'', PFloat (py_round (duration * 1000) 2))]]))"

text \<open>The \<open>except\<close> block (lines 131 to 145): the exception that leaves it, the registry
  and the records logged.\<close>

definition on_failure ::
  "Metrics \<Rightarrow> string \<Rightarrow> request \<Rightarrow> exn \<Rightarrow> exn \<times> Metrics \<times> log_record list" where
  "on_failure m correlation_id request e =
     (let logged =
            [\<lparr>levelname = ERROR, message = ''Request failed'',
              extra = [(''correlation_id'', PStr correlation_id),
                       (''method'', PStr (req_method request)),
                       (''path'', PStr (url_path request)),
                       (''error'', PStr (exn_str e))],
              exc_info = True\<rparr>]
      in case track_request m request of
           Inl e' \<Rightarrow> (e', m, logged)
         | Inr m' \<Rightarrow> (e, m', logged))"

record outcome =
  result :: "exn + response"
  registry :: Metrics
  events :: "event list"

text \<open>
  The middleware. \<open>call_next\<close> is the rest of the stack: what it returns or raises for
  the request it is given; \<open>start\<close> and \<open>now\<close> are the clock readings of lines 103 and
  109. The handlers of this repository write neither of the two request metrics.
\<close>

definition add_correlation_id ::
  "Metrics \<Rightarrow> request \<Rightarrow> (request \<Rightarrow> exn + response) \<Rightarrow> string \<Rightarrow> rat \<Rightarrow> rat \<Rightarrow> outcome" where
  "add_correlation_id m request0 call_next uuid4 start now =
     (let correlation_id = get_correlation_id request0 uuid4;
          request = request0\<lparr>state_correlation_id := Some correlation_id\<rparr>
      in case track_request m request of
           Inl e \<Rightarrow> \<lparr>result = Inl e, registry = m, events = []\<rparr>
         | Inr m1 \<Rightarrow>
             (case (case call_next request of
                      Inl e \<Rightarrow> Inl e
                    | Inr response \<Rightarrow> on_success m1 correlation_id request response start now) of
                Inr (response, m2, logged) \<Rightarrow>
                  \<lparr>result = Inr response, registry = m2,
                   events = Invoke request # map Emit logged\<rparr>
              | Inl e \<Rightarrow>
                  (case on_failure m1 correlation_id request e of
                     (e', m2, logged) \<Rightarrow>
                       \<lparr>result = Inl e', registry = m2,
                        events = Invoke request # map Emit logged\<rparr>)))"

section \<open>The route table\<close>

text \<open>
  The routes that app/main.py and app/api/routes.py register (the router under the prefix
  \<open>/api/v1\<close>), in order. The framework matches a path against a template segment by
  segment; a segment \<open>{name}\<close> of the template matches any non-empty segment.
\<close>

definition routes :: "(string \<times> string) list" where
  "routes =
     [(''GET'', ''/health/live''),
      (''GET'', ''/health/ready''),
      (''GET'', ''/health/startup''),
      (''GET'', ''/metrics''),
      (''GET'', ''/''),
      (''GET'', ''/api/v1/items''),
      (''GET'', ''/api/v1/items/{item_id}''),
      (''POST'', ''/api/v1/items''),
      (''GET'', ''/api/v1/slow''),
      (''GET'', ''/api/v1/error''),
      (''GET'', ''/api/v1/cache-test'')]"

fun split_slash :: "string \<Rightarrow> string list" where
  "split_slash [] = [[]]"
| "split_slash (c # cs) =
     (if c = CHR ''/'' then [] # split_slash cs
      else (case split_slash cs of [] \<Rightarrow> [[c]] | s # ss \<Rightarrow> (c # s) # ss))"

definition is_param :: "string \<Rightarrow> bool" where
  "is_param seg =
     (case seg of [] \<Rightarrow> False | c # cs \<Rightarrow> c = CHR ''{'' \<and> cs \<noteq> [] \<and> last cs = CHR ''}'')"

definition segment_matches :: "string \<Rightarrow> string \<Rightarrow> bool" where
  "segment_matches t s = (if is_param t then s \<noteq> [] else t = s)"

definition path_matches :: "string \<Rightarrow> string \<Rightarrow> bool" where
  "path_matches template path = list_all2 segment_matches (split_slash template) (split_slash path)"

definition route_template :: "string \<Rightarrow> string \<Rightarrow> string option" where
  "route_template meth path =
     map_option snd (find (\<lambda>(m, t). m = meth \<and> path_matches t path) routes)"

section \<open>Example inputs\<close>

text \<open>Two downstream stacks: one that returns a given response, one that raises a given
  exception; a GET request for a path with given headers; and the application state of a
  process loaded at clock reading 100 whose startup has completed.\<close>

definition returning :: "response \<Rightarrow> request \<Rightarrow> exn + response" where
  "returning response request = Inr response"

definition raising :: "exn \<Rightarrow> request \<Rightarrow> exn + response" where
  "raising e request = Inl e"

definition get_request :: "string \<Rightarrow> (string \<rightharpoonup> string) \<Rightarrow> request" where
  "get_request path hs =
     \<lparr>req_method = ''GET'', url_path = path, req_headers = hs, state_correlation_id = None\<rparr>"

definition serving :: app_state where
  "serving = fst (lifespan_startup Settings_default (app_state_init 100))"

section \<open>Rounding\<close>



text \<open>The rounded integer is within a half of its argument.\<close>

lemma round_half_even_near: "\<bar>of_int (round_half_even x) - x\<bar> \<le> 1 / 2"
proof -
  have "of_int \<lfloor>x\<rfloor> \<le> x" "x < of_int \<lfloor>x\<rfloor> + 1"
    by linarith+
  then show ?thesis
    by (auto simp: round_half_even_def Let_def)
qed

text \<open>Rounding to two decimals gives a whole number of hundredths, within half a
  hundredth of the argument, and no whole number of hundredths is nearer.\<close>

lemma py_round_2_multiple: "py_round x 2 = of_int (round_half_even (x * 100)) / 100"
  by (simp add: py_round_def)

lemma py_round_2_near: "\<bar>py_round x 2 - x\<bar> \<le> 1 / 200"
proof -
  have "\<bar>of_int (round_half_even (x * 100)) - x * 100\<bar> \<le> 1 / 2"
    by (rule round_half_even_near)
  then show ?thesis
    unfolding py_round_2_multiple by (simp add: abs_le_iff field_simps)
qed

lemma py_round_2_nearest: "\<bar>py_round x 2 - x\<bar> \<le> \<bar>of_int j / 100 - x\<bar>"
proof (cases "j = round_half_even (x * 100)")
  case True
  then show ?thesis by (simp add: py_round_2_multiple)
next
  case False
  then have "1 \<le> \<bar>j - round_half_even (x * 100)\<bar>" by linarith
  then have "(1::rat) \<le> \<bar>of_int j - of_int (round_half_even (x * 100))\<bar>"
    by (metis of_int_1 of_int_abs of_int_diff of_int_le_iff)
  moreover have "\<bar>of_int (round_half_even (x * 100)) - x * 100\<bar> \<le> 1 / 2"
    by (rule round_half_even_near)
  ultimately have "1 / 2 \<le> \<bar>of_int j - x * 100\<bar>" by linarith
  then have "1 / 200 \<le> \<bar>of_int j / 100 - x\<bar>"
    by (simp add: abs_le_iff field_simps)
  with py_round_2_near [of x] show ?thesis by linarith
qed

text \<open>Two ties: 0.125 goes down to 0.12 and 0.375 up to 0.38, each to the even
  hundredth.\<close>

lemma floor_halves: "\<lfloor>25 / 2 :: rat\<rfloor> = 12" "\<lfloor>75 / 2 :: rat\<rfloor> = 37"
  by (simp_all add: floor_eq_iff)

lemma py_round_ties: "py_round (1 / 8) 2 = 3 / 25" "py_round (3 / 8) 2 = 19 / 50"
  by (simp_all add: py_round_def round_half_even_def floor_halves)

section \<open>The label sets of the two request metrics\<close>

lemma sort_length_neq: "length xs \<noteq> length ys \<Longrightarrow> sort xs \<noteq> sort (ys :: string list)"
  by (metis length_sort)

text \<open>Where \<open>labels\<close> selects a child, every declared name was among the keyword
  names, so each label value is \<open>str\<close> of an argument that was passed.\<close>

lemma labels_lookup_defined:
  assumes "labels labelnames labelkwargs = Inr lv" and "l \<in> set labelnames"
  shows "map_of labelkwargs l \<noteq> None"
proof -
  from assms(1) have "sort (map fst labelkwargs) = sort labelnames"
    by (simp add: labels_def split: if_splits)
  then have "set (map fst labelkwargs) = set labelnames"
    by (metis set_sort)
  with assms(2) show ?thesis
    by (simp add: map_of_eq_None_iff)
qed

text \<open>The counter is declared with three label names and both calls on it pass two:
  the library refuses them, whatever the request.\<close>

lemma counter_labels_rejected:
  "labels http_requests_total_labelnames (counter_labelkwargs r) =
     Inl (Exn ''ValueError'' ''Incorrect label names'')"
  by (simp add: labels_def http_requests_total_labelnames_def counter_labelkwargs_def
      sort_length_neq)

lemma track_request_raises:
  "track_request m r = Inl (Exn ''ValueError'' ''Incorrect label names'')"
  by (simp add: track_request_def counter_labels_rejected)

text \<open>The histogram's call passes the three names it is declared with.\<close>

lemma histogram_labels_accepted:
  "labels http_request_duration_seconds_labelnames (histogram_labelkwargs r resp) =
     Inr [req_method r, url_path r, str_int (status_code resp)]"
  by (simp add: labels_def http_request_duration_seconds_labelnames_def
      histogram_labelkwargs_def)

section \<open>The blocks of the middleware\<close>

lemma middleware_raises:
  "add_correlation_id m r call_next uuid4 start now =
     \<lparr>result = Inl (Exn ''ValueError'' ''Incorrect label names''), registry = m, events = []\<rparr>"
  by (simp add: add_correlation_id_def Let_def track_request_raises)

lemma on_failure_eq:
  "on_failure m cid r e =
     (Exn ''ValueError'' ''Incorrect label names'', m,
      [\<lparr>levelname = ERROR, message = ''Request failed'',
        extra = [(''correlation_id'', PStr cid), (''method'', PStr (req_method r)),
                 (''path'', PStr (url_path r)), (''error'', PStr (exn_str e))],
        exc_info = True\<rparr>])"
  by (simp add: on_failure_def track_request_raises)

lemma on_success_eq:
  "on_success m cid r resp start now =
     Inr (resp\<lparr>resp_headers := (resp_headers resp)(''X-Correlation-ID'' \<mapsto> cid)\<rparr>,
          m\<lparr>http_request_duration_seconds :=
               observe (http_request_duration_seconds m)
                 [req_method r, url_path r, str_int (status_code resp)] (now - start)\<rparr>,
          [info ''Request completed''
             [(''correlation_id'', PStr cid), (''method'', PStr (req_method r)),
              (''path'', PStr (url_path r)), (''status_code'', PInt (status_code resp)),
              (''duration_ms'', PFloat (py_round ((now - start) * 1000) 2))]])"
  by (simp add: on_success_def histogram_labels_accepted)

section \<open>The claims about the middleware\<close>

text \<open>
  Claim C1 says that every request entering the middleware increments the requests-total
  counter exactly once, before the handler is invoked, and that the increment succeeds
  against the counter's declared label set. The code does otherwise. For \<open>GET /\<close>
  with a handler that returns the root endpoint's response, the \<open>labels\<close> call of lines
  98 to 100 raises \<open>ValueError\<close>: the middleware ends with that exception, the registry is
  as it was (the counter's total over any children is 0) and the handler was never called.
\<close>

theorem requests_total_increment_raises:
  "add_correlation_id Metrics_init (get_request ''/'' Map.empty)
       (returning (root_endpoint Settings_default serving 101)) ''6f1c'' 101 102 =
     \<lparr>result = Inl (Exn ''ValueError'' ''Incorrect label names''),
      registry = Metrics_init, events = []\<rparr>
   \<and> counter_total (http_requests_total Metrics_init) keys = 0"
  by (simp add: middleware_raises counter_total_def Metrics_init_def)

text \<open>
  Claim C2 says that when the handler raises, the middleware records one latency
  observation under a synthetic error status, logs an error record with the correlation
  ID and re-raises the original error. The code does otherwise. For a request whose
  handler raises \<open>RuntimeError('boom')\<close> the middleware ends with the \<open>ValueError\<close> of
  lines 98 to 100, the histogram has no observation and nothing was logged. The
  \<open>except\<close> block taken alone logs the error record with the correlation ID, makes no
  observation, and leaves with the \<open>ValueError\<close> of its own \<open>labels\<close> call (lines 142
  to 144) in place of the handler's exception.
\<close>

theorem handler_failure_not_observed:
  "add_correlation_id Metrics_init (get_request ''/api/v1/items/1'' Map.empty)
       (raising (Exn ''RuntimeError'' ''boom'')) ''6f1c'' 101 102 =
     \<lparr>result = Inl (Exn ''ValueError'' ''Incorrect label names''),
      registry = Metrics_init, events = []\<rparr>
   \<and> observation_count (http_request_duration_seconds Metrics_init) keys = 0
   \<and> on_failure Metrics_init ''6f1c'' (get_request ''/api/v1/items/1'' Map.empty)
         (Exn ''RuntimeError'' ''boom'') =
       (Exn ''ValueError'' ''Incorrect label names'', Metrics_init,
        [\<lparr>levelname = ERROR, message = ''Request failed'',
          extra = [(''correlation_id'', PStr ''6f1c''), (''method'', PStr ''GET''),
                   (''path'', PStr ''/api/v1/items/1''), (''error'', PStr ''boom'')],
          exc_info = True\<rparr>])"
  by (simp add: middleware_raises on_failure_eq get_request_def observation_count_def
      Metrics_init_def)


text \<open>
  Claim C4 says that an \<open>X-Correlation-ID\<close> header whose value is the empty string is
  replaced by a fresh ID. It is not: the empty value is the correlation ID.
\<close>

theorem empty_header_value_is_used:
  "get_correlation_id (get_request ''/'' [''X-Correlation-ID'' \<mapsto> []]) ''6f1c'' = []"
  by (simp add: get_correlation_id_def headers_get_def get_request_def)

text \<open>
  Claim C4 as amended. The correlation ID is the value of the \<open>X-Correlation-ID\<close>
  header whenever the request has that header, the empty value included, and the freshly
  generated ID exactly when the header is absent.
\<close>

theorem correlation_id_from_header_when_present:
  "(req_headers r ''X-Correlation-ID'' = Some v \<longrightarrow> get_correlation_id r uuid4 = v)
   \<and> (req_headers r ''X-Correlation-ID'' = None \<longrightarrow> get_correlation_id r uuid4 = uuid4)"
  by (simp add: get_correlation_id_def headers_get_def)

text \<open>Claim C4 as amended, at a request with the header and at one without.\<close>

theorem correlation_id_from_header_when_present_witness:
  "get_correlation_id
       (get_request ''/'' [''X-Correlation-ID'' \<mapsto> ''test-correlation-123'']) ''6f1c''
     = ''test-correlation-123''
   \<and> get_correlation_id (get_request ''/'' Map.empty) ''6f1c'' = ''6f1c''"
  using
    correlation_id_from_header_when_present
      [of "get_request ''/'' [''X-Correlation-ID'' \<mapsto> ''test-correlation-123'']"
        "''test-correlation-123''" "''6f1c''"]
    correlation_id_from_header_when_present [of "get_request ''/'' Map.empty" "[]" "''6f1c''"]
  by (simp add: get_request_def)

text \<open>
  Claim C5 says that the endpoint label is the route template of the matched route. For
  \<open>GET /api/v1/items/123\<close> the matched route's template is \<open>/api/v1/items/{item_id}\<close>,
  and the endpoint label passed for the counter and for the histogram is the requested
  path \<open>/api/v1/items/123\<close>.
\<close>

theorem endpoint_label_not_route_template:
  "route_template ''GET'' ''/api/v1/items/123'' = Some ''/api/v1/items/{item_id}''
   \<and> map_of (counter_labelkwargs (get_request ''/api/v1/items/123'' Map.empty)) ''endpoint''
       = Some (LStr ''/api/v1/items/123'')
   \<and> map_of (histogram_labelkwargs (get_request ''/api/v1/items/123'' Map.empty)
               (JSONResponse 200 [])) ''endpoint''
       = Some (LStr ''/api/v1/items/123'')"
  by (simp add: route_template_def routes_def path_matches_def segment_matches_def is_param_def
      counter_labelkwargs_def histogram_labelkwargs_def get_request_def)

text \<open>
  Claim C5 as amended. The endpoint label the middleware passes for the counter and for
  the histogram is the requested path as it came. The success path files its observation
  under the method, that path and the status code. Requests with different paths get
  different endpoint labels, so the label values are not bounded by the route table.
\<close>

theorem endpoint_label_is_requested_path:
  "map_of (counter_labelkwargs r) ''endpoint'' = Some (LStr (url_path r))
   \<and> map_of (histogram_labelkwargs r resp) ''endpoint'' = Some (LStr (url_path r))
   \<and> (\<exists>resp' m' logged. on_success m cid r resp start now = Inr (resp', m', logged)
        \<and> http_request_duration_seconds m' [req_method r, url_path r, str_int (status_code resp)]
            = Some ((case http_request_duration_seconds m
                          [req_method r, url_path r, str_int (status_code resp)] of
                       None \<Rightarrow> [] | Some vs \<Rightarrow> vs) @ [now - start]))
   \<and> (url_path r \<noteq> url_path r' \<longrightarrow>
        map_of (counter_labelkwargs r) ''endpoint'' \<noteq> map_of (counter_labelkwargs r') ''endpoint''
        \<and> map_of (histogram_labelkwargs r resp) ''endpoint''
            \<noteq> map_of (histogram_labelkwargs r' resp) ''endpoint'')"
  by (simp add: counter_labelkwargs_def histogram_labelkwargs_def on_success_eq observe_def
      split: option.split)

text \<open>Claim C5 as amended, at two requests of the same route: \<open>/api/v1/items/1\<close> and
  \<open>/api/v1/items/2\<close> get different endpoint labels.\<close>

theorem endpoint_label_is_requested_path_witness:
  "route_template ''GET'' ''/api/v1/items/1'' = route_template ''GET'' ''/api/v1/items/2''
   \<and> map_of (counter_labelkwargs (get_request ''/api/v1/items/1'' Map.empty)) ''endpoint''
       \<noteq> map_of (counter_labelkwargs (get_request ''/api/v1/items/2'' Map.empty)) ''endpoint''
   \<and> map_of (histogram_labelkwargs (get_request ''/api/v1/items/1'' Map.empty)
               (JSONResponse 200 [])) ''endpoint''
       \<noteq> map_of (histogram_labelkwargs (get_request ''/api/v1/items/2'' Map.empty)
               (JSONResponse 200 [])) ''endpoint''"
proof -
  have paths: "url_path (get_request ''/api/v1/items/1'' Map.empty)
      \<noteq> url_path (get_request ''/api/v1/items/2'' Map.empty)"
    by (simp add: get_request_def)
  have same: "route_template ''GET'' ''/api/v1/items/1'' = route_template ''GET'' ''/api/v1/items/2''"
    by (simp add: route_template_def routes_def path_matches_def segment_matches_def
        is_param_def)
  from paths same
    endpoint_label_is_requested_path
      [of "get_request ''/api/v1/items/1'' Map.empty" "JSONResponse 200 []" Metrics_init
        "''6f1c''" 101 102 "get_request ''/api/v1/items/2'' Map.empty"]
  show ?thesis by blast
qed

section \<open>The claim about shutdown\<close>

text \<open>
  Claim C6 says that after the ready flag is set to false the process waits the configured
  \<open>SHUTDOWN_TIMEOUT\<close>. The code does otherwise. With the default settings, whose
  \<open>SHUTDOWN_TIMEOUT\<close> is 30, the shutdown half of \<open>lifespan\<close> sleeps 2 seconds after
  clearing the flag, and it does the same with \<open>SHUTDOWN_TIMEOUT\<close> set to 10.
\<close>

theorem shutdown_sleep_ignores_SHUTDOWN_TIMEOUT:
  "sleeps_after_unready (snd (lifespan_shutdown Settings_default serving)) = [2]
   \<and> SHUTDOWN_TIMEOUT Settings_default = 30
   \<and> lifespan_shutdown (Settings_default\<lparr>SHUTDOWN_TIMEOUT := 10\<rparr>) serving
       = lifespan_shutdown Settings_default serving"
  by (simp add: lifespan_shutdown_def Settings_default_def)

section \<open>The claims about the probes\<close>




text \<open>
  Claim C8: the startup probe has the status code of the readiness probe in every state;
  it answers 200 with \<open>{"status": "started"}\<close> exactly when the ready flag is true and
  503 with \<open>{"status": "starting"}\<close> otherwise.
\<close>

theorem startup_probe_mirrors_readiness:
  "status_code (startup_probe st) = status_code (readiness_probe st now)
   \<and> startup_probe st = (if ready st then JSONResponse 200 [(''status'', PStr ''started'')]
                          else JSONResponse 503 [(''status'', PStr ''starting'')])
   \<and> (status_code (startup_probe st) = 200) = ready st
   \<and> (status_code (startup_probe st) = 503) = (\<not> ready st)"
  by (simp add: startup_probe_def readiness_probe_def JSONResponse_def)

text \<open>
  Claim C9: the liveness probe answers 200 with \<open>{"status": "alive"}\<close> in every state,
  and its response is the same in two states that differ only in the ready flag.
\<close>

theorem liveness_probe_ignores_ready_flag:
  "status_code (liveness_probe st) = 200
   \<and> content (liveness_probe st) = [(''status'', PStr ''alive'')]
   \<and> liveness_probe (st\<lparr>ready := b\<rparr>) = liveness_probe st"
  by (simp add: liveness_probe_def JSONResponse_def)

text \<open>
  Claim C10: the \<open>uptime_seconds\<close> of the root endpoint and of the readiness probe is the
  clock reading minus the state's start timestamp, rounded to two decimals: a whole number
  of hundredths, the nearest one to the difference (within half a hundredth of it), a tie
  going to the even hundredth as for 0.125 and 0.375. The start timestamp is the clock
  reading at module load, and neither half of \<open>lifespan\<close> changes it: uptime counts from
  process launch, not from the moment the flag became true.
\<close>

theorem uptime_counts_from_module_load:
  "map_of (content (root_endpoint s st now)) ''uptime_seconds''
     = Some (PFloat (py_round (now - start_time st) 2))
   \<and> map_of (content (readiness_probe (st\<lparr>ready := True\<rparr>) now)) ''uptime_seconds''
     = Some (PFloat (py_round (now - start_time st) 2))
   \<and> (\<exists>k. py_round (now - start_time st) 2 = of_int k / 100)
   \<and> (\<forall>j. \<bar>py_round (now - start_time st) 2 - (now - start_time st)\<bar>
           \<le> \<bar>of_int j / 100 - (now - start_time st)\<bar>)
   \<and> \<bar>py_round (now - start_time st) 2 - (now - start_time st)\<bar> \<le> 1 / 200
   \<and> py_round (1 / 8) 2 = 3 / 25 \<and> py_round (3 / 8) 2 = 19 / 50
   \<and> start_time (app_state_init t0) = t0
   \<and> start_time (fst (lifespan_startup s st)) = start_time st
   \<and> start_time (fst (lifespan_shutdown s st)) = start_time st"
proof -
  have "\<exists>k. py_round (now - start_time st) 2 = of_int k / 100"
    using py_round_2_multiple by blast
  moreover have "map_of (content (root_endpoint s st now)) ''uptime_seconds''
     = Some (PFloat (py_round (now - start_time st) 2))"
    by (simp add: root_endpoint_def JSONResponse_def)
  moreover have
    "map_of (content (readiness_probe (st\<lparr>ready := True\<rparr>) now)) ''uptime_seconds''
     = Some (PFloat (py_round (now - start_time st) 2))"
    by (simp add: readiness_probe_def JSONResponse_def)
  moreover have "start_time (app_state_init t0) = t0"
    "start_time (fst (lifespan_startup s st)) = start_time st"
    "start_time (fst (lifespan_shutdown s st)) = start_time st"
    by (simp_all add: app_state_init_def lifespan_startup_def lifespan_shutdown_def)
  ultimately show ?thesis
    using py_round_2_nearest py_round_2_near py_round_ties by blast
qed

end
